theory Spec2Isabelle
  imports Main "HOL-Library.AList"
begin

section \<open>Shared data of the resource-manager wire\<close>

text \<open>
  The mesos task payload as the two programs use it. A protobuf pointer field is an
  option; the generated getters return the zero value for a nil field.
\<close>

record TaskInfo =
  ti_TaskId :: "string option"
  ti_SlaveId :: "string option"
  ti_Data :: "string option"

definition GetTaskIdValue :: "TaskInfo \<Rightarrow> string" where
  "GetTaskIdValue ti = (case ti_TaskId ti of None \<Rightarrow> [] | Some v \<Rightarrow> v)"

definition GetData :: "TaskInfo \<Rightarrow> string" where
  "GetData ti = (case ti_Data ti of None \<Rightarrow> [] | Some d \<Rightarrow> d)"

datatype TaskState = TASK_RUNNING | TASK_FAILED | TASK_KILLED | TASK_LOST

record TaskStatus =
  ts_TaskId :: "string option"
  ts_State :: TaskState
  ts_Message :: string
  ts_Data :: "string option"

type_synonym EnvVar = "string \<times> string"

record Container =
  c_Name :: string
  c_Env :: "EnvVar list"

record BoundPod =
  bp_Name :: string
  bp_Namespace :: string
  bp_SelfLink :: string
  bp_Containers :: "Container list"

datatype error =
    noSuchPodErr
  | noSuitableOffersErr
  | noSuchTaskErr
  | NotAccepted string
  | ExpiredOffer string
  | LaunchFailed string error
  | AlreadyLaunched string
  | NotPending string
  | SlaveDisappeared string string
  | External string
  | Panic string

section \<open>The slave-side executor (package executor)\<close>

datatype PodOperation = SET | ADD | REMOVE | UPDATE

record PodUpdate =
  pu_Op :: PodOperation
  pu_Pods :: "BoundPod list"

record kuberTask =
  mesosTaskInfo :: TaskInfo
  podName :: string

text \<open>
  \<open>KubernetesExecutor\<close>. The two Go maps are association lists with distinct keys, so
  that \<open>range k.pods\<close> has an order to run in. \<open>updateChan\<close> and \<open>driverStatus\<close> hold
  what has been sent on the update channel and through \<open>driver.SendStatusUpdate\<close>, oldest
  first; \<open>watchers\<close> holds the polling coroutines that \<open>LaunchTask\<close> has spawned.
\<close>

record KubernetesExecutor =
  registered :: bool
  tasks :: "(string \<times> kuberTask) list"
  pods :: "(string \<times> BoundPod) list"
  sourcename :: string
  updateChan :: "PodUpdate list"
  driverStatus :: "TaskStatus list"
  watchers :: "(TaskInfo \<times> string) list"

text \<open>
  What the executor takes from libraries that are not part of the repository:
  \<open>yaml.Unmarshal\<close> into a bound pod and \<open>kubelet.GetPodFullName\<close> (of name, namespace and
  the config-source annotation).
\<close>

record exec_env =
  yamlUnmarshal :: "string \<Rightarrow> error + BoundPod"
  GetPodFullName :: "string \<Rightarrow> string \<Rightarrow> string \<Rightarrow> string"

definition New :: "string \<Rightarrow> KubernetesExecutor" where
  "New ns = \<lparr>registered = False, tasks = [], pods = [], sourcename = ns,
     updateChan = [], driverStatus = [], watchers = []\<rparr>"

definition Registered :: "KubernetesExecutor \<Rightarrow> KubernetesExecutor" where
  "Registered k = k\<lparr>registered := True\<rparr>"

definition Reregistered :: "KubernetesExecutor \<Rightarrow> KubernetesExecutor" where
  "Reregistered k = k\<lparr>registered := True\<rparr>"

definition Disconnected :: "KubernetesExecutor \<Rightarrow> KubernetesExecutor" where
  "Disconnected k = k\<lparr>registered := False\<rparr>"

definition sendStatusUpdate ::
  "string option \<Rightarrow> TaskState \<Rightarrow> string \<Rightarrow> KubernetesExecutor \<Rightarrow> KubernetesExecutor" where
  "sendStatusUpdate taskId state message k =
     k\<lparr>driverStatus := driverStatus k @
        [\<lparr>ts_TaskId = taskId, ts_State = state, ts_Message = message, ts_Data = None\<rparr>]\<rparr>"

text \<open>The loop \<open>for _, p := range k.pods\<close> followed by the send on the update channel.\<close>

definition pushPods :: "KubernetesExecutor \<Rightarrow> KubernetesExecutor" where
  "pushPods k =
     k\<lparr>updateChan := updateChan k @ [\<lparr>pu_Op = SET, pu_Pods = map snd (pods k)\<rparr>]\<rparr>"

definition LaunchTask :: "exec_env \<Rightarrow> TaskInfo \<Rightarrow> KubernetesExecutor \<Rightarrow> KubernetesExecutor" where
  "LaunchTask env taskInfo k =
     (if \<not> registered k then
        sendStatusUpdate (ti_TaskId taskInfo) TASK_FAILED ''Executor not registered yet'' k
      else
        let taskId = GetTaskIdValue taskInfo in
        if map_of (tasks k) taskId \<noteq> None then k
        else
          (case yamlUnmarshal env (GetData taskInfo) of
             Inl err \<Rightarrow>
               sendStatusUpdate (ti_TaskId taskInfo) TASK_FAILED ''Failed to extract yaml data'' k
           | Inr pod \<Rightarrow>
               let podFullName = GetPodFullName env (bp_Name pod) (bp_Namespace pod) (sourcename k);
                   k1 = k\<lparr>tasks := AList.update taskId
                                \<lparr>mesosTaskInfo = taskInfo, podName = podFullName\<rparr> (tasks k)\<rparr>;
                   k2 = k1\<lparr>pods := AList.update podFullName pod (pods k1)\<rparr>;
                   k3 = pushPods k2
               in k3\<lparr>watchers := watchers k3 @ [(taskInfo, podFullName)]\<rparr>))"

definition killPodForTask :: "string \<Rightarrow> string \<Rightarrow> KubernetesExecutor \<Rightarrow> KubernetesExecutor" where
  "killPodForTask tid reason k =
     (case map_of (tasks k) tid of
        None \<Rightarrow> k
      | Some task \<Rightarrow>
          let k1 = k\<lparr>tasks := AList.delete tid (tasks k)\<rparr>;
              pid = podName task;
              k2 = (if map_of (pods k1) pid = None then k1
                    else pushPods (k1\<lparr>pods := AList.delete pid (pods k1)\<rparr>))
          in sendStatusUpdate (ti_TaskId (mesosTaskInfo task)) TASK_KILLED reason k2)"

definition reportLostTask :: "string \<Rightarrow> string \<Rightarrow> KubernetesExecutor \<Rightarrow> KubernetesExecutor" where
  "reportLostTask tid reason k =
     (case map_of (tasks k) tid of
        None \<Rightarrow> k
      | Some task \<Rightarrow>
          let k1 = k\<lparr>tasks := AList.delete tid (tasks k)\<rparr>;
              pid = podName task;
              k2 = (if map_of (pods k1) pid = None then k1
                    else pushPods (k1\<lparr>pods := AList.delete pid (pods k1)\<rparr>))
          in sendStatusUpdate (ti_TaskId (mesosTaskInfo task)) TASK_LOST reason k2)"

text \<open>
  \<open>checkForLostPodTask\<close>: \<open>isKnownPod\<close> is the answer of the container runtime, read only when
  the task is still on file.
\<close>

definition checkForLostPodTask ::
  "TaskInfo \<Rightarrow> bool \<Rightarrow> KubernetesExecutor \<Rightarrow> bool \<times> KubernetesExecutor" where
  "checkForLostPodTask taskInfo isKnownPod k =
     (let taskId = GetTaskIdValue taskInfo in
      if map_of (tasks k) taskId \<noteq> None then
        (if isKnownPod then (False, k)
         else (True, reportLostTask taskId ''Task lost: container disappeared'' k))
      else (True, k))"

definition KillTask :: "string \<Rightarrow> KubernetesExecutor \<Rightarrow> KubernetesExecutor" where
  "KillTask taskId k =
     (if \<not> registered k then k else killPodForTask taskId ''Task killed'' k)"

text \<open>
  \<open>Shutdown\<close> ranges over the task map while \<open>killPodForTask\<close> deletes from it; a kill
  removes only its own key, so the loop visits the keys present at its start.
\<close>

definition Shutdown :: "KubernetesExecutor \<Rightarrow> KubernetesExecutor" where
  "Shutdown k = fold (\<lambda>tid. killPodForTask tid ''Executor shutdown'') (map fst (tasks k)) k"

section \<open>The framework scheduler (package scheduler, plugin.go)\<close>

subsection \<open>Data\<close>

record api_Pod =
  pod_Name :: string
  pod_Namespace :: string
  pod_Host :: string

text \<open>
  The scheduler-local \<open>Pod\<close> wrapper: the pod, a deadline, a delay and the notify channel
  (a channel is named by a number; \<open>None\<close> is the nil channel).
\<close>

record Pod =
  p_Pod :: api_Pod
  p_deadline :: "nat option"
  p_delay :: "nat option"
  p_notify :: "nat option"

record Binding =
  b_Namespace :: string
  b_PodID :: string
  b_Host :: string

record Slave =
  HostName :: string

record OfferDetails =
  od_Id :: string
  od_SlaveId :: string
  od_Hostname :: string

text \<open>
  An entry of the offer registry: the offer, whether it has expired, and whether a task
  holds it (\<open>Release\<close> gives it back).
\<close>

record PerishableOffer =
  po_Details :: OfferDetails
  po_expired :: bool
  po_acquired :: bool

record PodTask =
  pt_ID :: string
  pt_podKey :: string
  pt_Pod :: api_Pod
  pt_Offer :: "OfferDetails option"
  pt_TaskInfo :: TaskInfo
  launched :: bool
  deleted :: bool

datatype stateType = statePending | stateRunning | stateFinished | stateUnknown

datatype EventType = ADD_EVENT | UPDATE_EVENT | DELETE_EVENT | POP_EVENT

datatype DriverCall = LaunchTasksCall string "TaskInfo list" | KillTaskCall string

record backoffEntry =
  be_backoff :: nat
  be_lastUpdate :: nat

text \<open>
  A listener of the offer registry. Its predicate is the closure of
  \<open>handleSchedulingError\<close>, which captures the task id and reads the scheduler when it is
  called; the entry keeps the captured id and the break channel that \<open>Listen\<close> returned.
\<close>

record Listener =
  l_taskId :: string
  l_notify :: nat

text \<open>
  Everything the plugin's components share. \<open>PodTask\<close>s are Go objects reached by pointer
  from the task maps, so they live in \<open>heap\<close> and the maps hold addresses; an object that
  leaves the maps stays where it is. \<open>driverCalls\<close> is the sequence of calls made on the
  resource-manager driver, oldest first. \<open>podQueue\<close> is the queuer's delay queue, \<open>podStore\<close>
  the historical store, \<open>perPodBackoff\<close> the error handler's backoff table.
\<close>

record sched =
  heap :: "nat \<Rightarrow> PodTask"
  nextAddr :: nat
  podToTask :: "string \<rightharpoonup> string"
  pendingTasks :: "string \<rightharpoonup> nat"
  runningTasks :: "string \<rightharpoonup> nat"
  finishedTasks :: "string list"
  slaves :: "string \<rightharpoonup> Slave"
  offers :: "string \<rightharpoonup> PerishableOffer"
  listeners :: "string \<rightharpoonup> Listener"
  nextChan :: nat
  podQueue :: "string \<rightharpoonup> Pod"
  podStore :: "(string \<times> EventType) list"
  perPodBackoff :: "string \<rightharpoonup> backoffEntry"
  driverCalls :: "DriverCall list"

text \<open>
  The collaborators that plugin.go reaches through interfaces and that are not part of the
  files at hand, each as the function of its arguments that the code sees: the pod key
  maker, \<open>meta.Accessor\<close> followed by \<open>Name\<close>, the task constructor, the pluggable
  offer-matching function (it reads the registry, the slaves and the task, and may hand
  back a changed registry), a task's acceptance predicate, the control-plane client
  (\<open>Pods.Get\<close>, \<open>Services.List\<close> with \<open>envvars.FromServices\<close>, the POST of a binding), the
  scheme conversion, the YAML encoder, the driver's answers to \<open>LaunchTasks\<close> and
  \<open>KillTask\<close>, the key under which the delay queue files a pod wrapper (its \<open>GetUID\<close>),
  and the cap of the backoff. A context is the namespace it carries.
\<close>

record sched_env =
  makePodKey :: "string \<Rightarrow> string \<Rightarrow> error + string"
  metaName :: "api_Pod \<Rightarrow> error + string"
  newPodTask :: "string \<Rightarrow> api_Pod \<Rightarrow> error + PodTask"
  algorithm :: "(string \<rightharpoonup> PerishableOffer) \<Rightarrow> (string \<rightharpoonup> Slave) \<Rightarrow> PodTask
                  \<Rightarrow> (error + OfferDetails) \<times> (string \<rightharpoonup> PerishableOffer)"
  AcceptOffer :: "PodTask \<Rightarrow> OfferDetails \<Rightarrow> bool"
  getPod :: "string \<Rightarrow> string \<Rightarrow> error + api_Pod"
  listServiceEnv :: "string \<Rightarrow> error + EnvVar list"
  convert :: "api_Pod \<Rightarrow> error + BoundPod"
  yamlMarshal :: "BoundPod \<Rightarrow> error + string"
  postBinding :: "string \<Rightarrow> Binding \<Rightarrow> error option"
  driverLaunchTasks :: "string \<Rightarrow> TaskInfo list \<Rightarrow> error option"
  driverKillTask :: "string \<Rightarrow> error option"
  GetUID :: "Pod \<Rightarrow> string"
  maxDuration :: nat

subsection \<open>Parts of the package that plugin.go calls\<close>

text \<open>
  Modelled from the spec: \<open>getTask\<close> of the pod-task store (scheduler.go is not among the
  files). The store tracks the states pending, running and finished; a task id found in
  none of them has the unknown state, and only a pending or running task has an object.
\<close>

definition getTask :: "sched \<Rightarrow> string \<Rightarrow> nat option \<times> stateType" where
  "getTask st taskId =
     (case runningTasks st taskId of
        Some a \<Rightarrow> (Some a, stateRunning)
      | None \<Rightarrow>
          (case pendingTasks st taskId of
             Some a \<Rightarrow> (Some a, statePending)
           | None \<Rightarrow>
               if taskId \<in> set (finishedTasks st) then (None, stateFinished)
               else (None, stateUnknown)))"

text \<open>
  Modelled from the spec: \<open>PodTask.hasAcceptedOffer\<close> (pod_task.go is not among the files).
  A task has accepted an offer when one is attached to it.
\<close>

definition hasAcceptedOffer :: "PodTask \<Rightarrow> bool" where
  "hasAcceptedOffer t = (pt_Offer t \<noteq> None)"

text \<open>
  Modelled from the spec: \<open>PodTask.GetOfferId\<close> (pod_task.go is not among the files), the
  identifier of the attached offer, empty when there is none.
\<close>

definition GetOfferId :: "PodTask \<Rightarrow> string" where
  "GetOfferId t = (case pt_Offer t of None \<Rightarrow> [] | Some od \<Rightarrow> od_Id od)"

text \<open>
  Modelled from the spec: the TaskInfo of a task that holds no offer (pod_task.go is not
  among the files): no task id, no slave, no data.
\<close>

definition clearedTaskInfo :: TaskInfo where
  "clearedTaskInfo = \<lparr>ti_TaskId = None, ti_SlaveId = None, ti_Data = None\<rparr>"

text \<open>
  Modelled from the spec: \<open>PodTask.ClearTaskInfo\<close> (pod_task.go is not among the files)
  detaches the offer and empties the TaskInfo.
\<close>

definition ClearTaskInfo :: "PodTask \<Rightarrow> PodTask" where
  "ClearTaskInfo t = t\<lparr>pt_Offer := None, pt_TaskInfo := clearedTaskInfo\<rparr>"

text \<open>
  Modelled from the spec: \<open>PodTask.FillTaskInfo\<close> (pod_task.go is not among the files)
  attaches the offer and fills the TaskInfo from it: the task's id and the offer's slave.
\<close>

definition FillTaskInfo :: "OfferDetails \<Rightarrow> PodTask \<Rightarrow> PodTask" where
  "FillTaskInfo offer t =
     t\<lparr>pt_Offer := Some offer,
       pt_TaskInfo := (pt_TaskInfo t)\<lparr>ti_TaskId := Some (pt_ID t),
                                     ti_SlaveId := Some (od_SlaveId offer)\<rparr>\<rparr>"

text \<open>
  Modelled from the spec: \<open>OfferRegistry.Get\<close> (offers.go is not among the files) returns
  the offer registered under an identifier, if there is one.
\<close>

definition Get :: "sched \<Rightarrow> string \<Rightarrow> PerishableOffer option" where
  "Get st offerId = offers st offerId"

text \<open>
  Modelled from the spec: \<open>PerishableOffer.HasExpired\<close> (offers.go is not among the files).
\<close>

definition HasExpired :: "PerishableOffer \<Rightarrow> bool" where
  "HasExpired offer = po_expired offer"

text \<open>
  Modelled from the spec: \<open>OfferRegistry.Invalidate\<close> (offers.go is not among the files)
  removes the offer; no listener fires.
\<close>

definition Invalidate :: "string \<Rightarrow> sched \<Rightarrow> sched" where
  "Invalidate offerId st = st\<lparr>offers := (offers st)(offerId := None)\<rparr>"

text \<open>
  Modelled from the spec: \<open>PerishableOffer.Release\<close> (offers.go is not among the files)
  gives back an offer that a task held. An offer that has left the registry is out of
  reach of everyone but the task that still points to it.
\<close>

definition Release :: "string \<Rightarrow> sched \<Rightarrow> sched" where
  "Release offerId st =
     (case offers st offerId of
        None \<Rightarrow> st
      | Some offer \<Rightarrow> st\<lparr>offers := (offers st)(offerId \<mapsto> offer\<lparr>po_acquired := False\<rparr>)\<rparr>)"

text \<open>
  Modelled from the spec: \<open>OfferRegistry.Listen\<close> (offers.go is not among the files)
  registers a listener under a pod key and returns its break channel, a fresh one.
\<close>

definition Listen :: "string \<Rightarrow> string \<Rightarrow> sched \<Rightarrow> nat \<times> sched" where
  "Listen podKey taskId st =
     (nextChan st,
      st\<lparr>listeners := (listeners st)(podKey \<mapsto> \<lparr>l_taskId = taskId, l_notify = nextChan st\<rparr>),
         nextChan := Suc (nextChan st)\<rparr>)"

text \<open>
  Modelled from the spec: \<open>DelayFIFO.Add\<close> under the KeepExisting policy (package queue is
  not among the files): a pod whose key is already queued leaves the queue as it is.
\<close>

definition Add_KeepExisting ::
  "string \<Rightarrow> Pod \<Rightarrow> (string \<rightharpoonup> Pod) \<Rightarrow> (string \<rightharpoonup> Pod)" where
  "Add_KeepExisting uid p q = (case q uid of None \<Rightarrow> q(uid \<mapsto> p) | Some old \<Rightarrow> q)"

text \<open>
  Modelled from the spec: \<open>DelayFIFO.Delete\<close> (package queue is not among the files).
\<close>

definition Delete :: "string \<Rightarrow> (string \<rightharpoonup> Pod) \<Rightarrow> (string \<rightharpoonup> Pod)" where
  "Delete uid q = q(uid := None)"

text \<open>
  Modelled from the spec: \<open>Poll\<close> of the historical store (package queue is not among the
  files) consumes the matching event and returns true iff it was observed.
\<close>

definition Poll :: "string \<Rightarrow> EventType \<Rightarrow> sched \<Rightarrow> bool \<times> sched" where
  "Poll name ev st =
     (if (name, ev) \<in> set (podStore st)
      then (True, st\<lparr>podStore := remove1 (name, ev) (podStore st)\<rparr>)
      else (False, st))"

text \<open>
  Modelled from the spec: \<open>podBackoff.gc\<close> (backoff.go is not among the files) drops the
  entries that are older than twice the cap. Times are in seconds.
\<close>

definition gc :: "sched_env \<Rightarrow> nat \<Rightarrow> sched \<Rightarrow> sched" where
  "gc env now st =
     st\<lparr>perPodBackoff :=
          (\<lambda>k. case perPodBackoff st k of
                 None \<Rightarrow> None
               | Some e \<Rightarrow> if be_lastUpdate e + 2 * maxDuration env < now then None else Some e)\<rparr>"

text \<open>
  Modelled from the spec: \<open>podBackoff.getBackoff\<close> (backoff.go is not among the files)
  returns the duration of the key's entry, 1s for a new one, and doubles the entry up to
  the cap.
\<close>

definition getBackoff :: "sched_env \<Rightarrow> nat \<Rightarrow> string \<Rightarrow> sched \<Rightarrow> nat \<times> sched" where
  "getBackoff env now podKey st =
     (let duration = (case perPodBackoff st podKey of None \<Rightarrow> 1 | Some e \<Rightarrow> be_backoff e)
      in (duration,
          st\<lparr>perPodBackoff := (perPodBackoff st)
                (podKey \<mapsto> \<lparr>be_backoff = min (2 * duration) (maxDuration env),
                            be_lastUpdate = now\<rparr>)\<rparr>))"

text \<open>An assignment through a \<open>*PodTask\<close>.\<close>

definition updTask :: "nat \<Rightarrow> (PodTask \<Rightarrow> PodTask) \<Rightarrow> sched \<Rightarrow> sched" where
  "updTask a f st = st\<lparr>heap := (heap st)(a := f (heap st a))\<rparr>"

subsection \<open>k8smScheduler: the capabilities behind SchedulerInterface\<close>

definition taskForPod :: "sched \<Rightarrow> string \<Rightarrow> string option" where
  "taskForPod st podID = podToTask st podID"

definition createPodTask :: "sched_env \<Rightarrow> string \<Rightarrow> api_Pod \<Rightarrow> sched \<Rightarrow> (error + nat) \<times> sched" where
  "createPodTask env ctx pod st =
     (case newPodTask env ctx pod of
        Inl err \<Rightarrow> (Inl err, st)
      | Inr t \<Rightarrow>
          (Inr (nextAddr st),
           st\<lparr>heap := (heap st)(nextAddr st := t), nextAddr := Suc (nextAddr st)\<rparr>))"

definition registerPodTask :: "(error + nat) \<times> sched \<Rightarrow> (error + nat) \<times> sched" where
  "registerPodTask r =
     (case r of
        (Inl err, st) \<Rightarrow> (Inl err, st)
      | (Inr a, st) \<Rightarrow>
          (Inr a,
           st\<lparr>podToTask := (podToTask st)(pt_podKey (heap st a) \<mapsto> pt_ID (heap st a)),
              pendingTasks := (pendingTasks st)(pt_ID (heap st a) \<mapsto> a)\<rparr>))"

definition slaveFor :: "sched \<Rightarrow> string \<Rightarrow> Slave option" where
  "slaveFor st slaveId = slaves st slaveId"

definition unregisterPodTask :: "nat \<Rightarrow> sched \<Rightarrow> sched" where
  "unregisterPodTask a st =
     st\<lparr>podToTask := (podToTask st)(pt_podKey (heap st a) := None),
        pendingTasks := (pendingTasks st)(pt_ID (heap st a) := None)\<rparr>"

definition killTask :: "sched_env \<Rightarrow> string \<Rightarrow> sched \<Rightarrow> error option \<times> sched" where
  "killTask env taskId st =
     (driverKillTask env taskId, st\<lparr>driverCalls := driverCalls st @ [KillTaskCall taskId]\<rparr>)"

text \<open>\<open>launchTask\<close> reads the offer id through \<open>task.Offer\<close>; on a nil offer Go panics.\<close>

definition launchTask :: "sched_env \<Rightarrow> nat \<Rightarrow> sched \<Rightarrow> error option \<times> sched" where
  "launchTask env a st =
     (case pt_Offer (heap st a) of
        None \<Rightarrow> (Some (Panic ''nil offer''), st)
      | Some od \<Rightarrow>
          (let taskList = [pt_TaskInfo (heap st a)]
           in (driverLaunchTasks env (od_Id od) taskList,
               st\<lparr>driverCalls := driverCalls st @ [LaunchTasksCall (od_Id od) taskList]\<rparr>)))"

subsection \<open>binder\<close>

definition getServiceEnvironmentVariables :: "sched_env \<Rightarrow> string \<Rightarrow> error + EnvVar list" where
  "getServiceEnvironmentVariables env ctx = listServiceEnv env ctx"

text \<open>
  \<open>prepareTaskForLaunch\<close>. The assignment of \<open>yaml.Marshal\<close>'s result to
  \<open>task.TaskInfo.Data\<close> happens before the error is looked at; a failed marshal yields no
  data.
\<close>

definition prepareTaskForLaunch ::
  "sched_env \<Rightarrow> string \<Rightarrow> string \<Rightarrow> nat \<Rightarrow> sched \<Rightarrow> error option \<times> sched" where
  "prepareTaskForLaunch env ctx machine a st =
     (case getPod env ctx (pod_Name (pt_Pod (heap st a))) of
        Inl err \<Rightarrow> (Some err, st)
      | Inr pod \<Rightarrow>
          (case getServiceEnvironmentVariables env ctx of
             Inl err \<Rightarrow> (Some err, st)
           | Inr envVars \<Rightarrow>
               (case convert env pod of
                  Inl err \<Rightarrow> (Some err, st)
                | Inr boundPod0 \<Rightarrow>
                    (let boundPod1 = boundPod0\<lparr>bp_Containers :=
                           map (\<lambda>container. container\<lparr>c_Env := c_Env container @ envVars\<rparr>)
                               (bp_Containers boundPod0)\<rparr>;
                         boundPod = boundPod1\<lparr>bp_SelfLink :=
                           ''/api/v1beta1/boundPods/'' @ bp_Name boundPod1\<rparr>
                     in case yamlMarshal env boundPod of
                          Inl err \<Rightarrow>
                            (Some err,
                             updTask a (\<lambda>t. t\<lparr>pt_TaskInfo := (pt_TaskInfo t)\<lparr>ti_Data := None\<rparr>\<rparr>) st)
                        | Inr data \<Rightarrow>
                            (None,
                             updTask a (\<lambda>t. t\<lparr>pt_TaskInfo := (pt_TaskInfo t)\<lparr>ti_Data := Some data\<rparr>\<rparr>) st)))))"

text \<open>
  The two statements that end every failing path of \<open>bind\<close> after the offer check:
  \<open>task.Offer.Release()\<close> and \<open>task.ClearTaskInfo()\<close>.
\<close>

definition releaseAndClear :: "string \<Rightarrow> nat \<Rightarrow> sched \<Rightarrow> sched" where
  "releaseAndClear offerId a st = updTask a ClearTaskInfo (Release offerId st)"

definition bind ::
  "sched_env \<Rightarrow> string \<Rightarrow> Binding \<Rightarrow> nat \<Rightarrow> sched \<Rightarrow> (error + unit) \<times> sched" where
  "bind env ctx binding a st =
     (let task = heap st a in
      if \<not> hasAcceptedOffer task then (Inl (NotAccepted (pt_ID task)), st)
      else
        (case pt_Offer task of
           None \<Rightarrow> (Inl (Panic ''nil offer''), st)
         | Some od \<Rightarrow>
             (let offerId = GetOfferId task in
              if (case Get st offerId of None \<Rightarrow> True | Some offer \<Rightarrow> HasExpired offer) then
                (Inl (ExpiredOffer (pt_ID task)), releaseAndClear (od_Id od) a st)
              else
                (case prepareTaskForLaunch env ctx (b_Host binding) a st of
                   (Some err, st1) \<Rightarrow>
                     (Inl (LaunchFailed (pt_ID task) err), releaseAndClear (od_Id od) a st1)
                 | (None, st1) \<Rightarrow>
                     (case postBinding env ctx binding of
                        Some err \<Rightarrow>
                          (Inl (LaunchFailed (pt_ID task) err), releaseAndClear (od_Id od) a st1)
                      | None \<Rightarrow>
                          (case launchTask env a st1 of
                             (Some err, st2) \<Rightarrow>
                               (Inl (LaunchFailed (pt_ID task) err),
                                releaseAndClear (od_Id od) a st2)
                           | (None, st2) \<Rightarrow>
                               (Inr (),
                                updTask a
                                  (\<lambda>t. t\<lparr>pt_Pod := (pt_Pod t)\<lparr>pod_Host := b_Host binding\<rparr>,
                                         launched := True\<rparr>)
                                  (Invalidate offerId st2))))))))"

definition Bind :: "sched_env \<Rightarrow> Binding \<Rightarrow> sched \<Rightarrow> (error + unit) \<times> sched" where
  "Bind env binding st =
     (let ctx = b_Namespace binding in
      case makePodKey env ctx (b_PodID binding) of
        Inl err \<Rightarrow> (Inl err, st)
      | Inr podKey \<Rightarrow>
          (case taskForPod st podKey of
             None \<Rightarrow> (Inl noSuchPodErr, st)
           | Some taskId \<Rightarrow>
               (case getTask st taskId of
                  (task, statePending) \<Rightarrow>
                    (case task of
                       None \<Rightarrow> (Inl (Panic ''nil task''), st)
                     | Some a \<Rightarrow> bind env ctx binding a st)
                | (task, other) \<Rightarrow> (Inl noSuchPodErr, st))))"

subsection \<open>kubeScheduler\<close>

definition doSchedule :: "sched_env \<Rightarrow> (error + nat) \<times> sched \<Rightarrow> (error + string) \<times> sched" where
  "doSchedule env r =
     (case r of
        (Inl err, st) \<Rightarrow> (Inl err, st)
      | (Inr a, st) \<Rightarrow>
          (case algorithm env (offers st) (slaves st) (heap st a) of
             (Inl err, reg) \<Rightarrow> (Inl err, st\<lparr>offers := reg\<rparr>)
           | (Inr offer, reg) \<Rightarrow>
               (let st1 = st\<lparr>offers := reg\<rparr>;
                    slaveId = od_SlaveId offer
                in case slaveFor st1 slaveId of
                     None \<Rightarrow>
                       (Inl (SlaveDisappeared slaveId (pt_ID (heap st1 a))),
                        updTask a ClearTaskInfo (Invalidate (od_Id offer) (Release (od_Id offer) st1)))
                   | Some slave \<Rightarrow>
                       (Inr (HostName slave), updTask a (FillTaskInfo offer) st1))))"

definition Schedule :: "sched_env \<Rightarrow> api_Pod \<Rightarrow> sched \<Rightarrow> (error + string) \<times> sched" where
  "Schedule env pod st =
     (let ctx = pod_Namespace pod in
      case makePodKey env ctx (pod_Name pod) of
        Inl err \<Rightarrow> (Inl err, st)
      | Inr podKey \<Rightarrow>
          (case taskForPod st podKey of
             None \<Rightarrow>
               (case metaName env pod of
                  Inl err \<Rightarrow> (Inl noSuchPodErr, st)
                | Inr name \<Rightarrow>
                    (case Poll name DELETE_EVENT st of
                       (True, st1) \<Rightarrow> (Inl noSuchPodErr, st1)
                     | (False, st1) \<Rightarrow>
                         doSchedule env (registerPodTask (createPodTask env ctx pod st1))))
           | Some taskID \<Rightarrow>
               (case getTask st taskID of
                  (task, statePending) \<Rightarrow>
                    (case task of
                       None \<Rightarrow> (Inl (Panic ''nil task''), st)
                     | Some a \<Rightarrow>
                         if launched (heap st a) then (Inl (AlreadyLaunched taskID), st)
                         else doSchedule env (Inr a, st))
                | (task, other) \<Rightarrow> (Inl (NotPending taskID), st))))"

subsection \<open>queuer, errorHandler, deleter\<close>

definition dequeue :: "string \<Rightarrow> sched \<Rightarrow> sched" where
  "dequeue uid st = st\<lparr>podQueue := Delete uid (podQueue st)\<rparr>"

definition requeue :: "sched_env \<Rightarrow> Pod \<Rightarrow> sched \<Rightarrow> sched" where
  "requeue env pod st =
     st\<lparr>podQueue := Add_KeepExisting (GetUID env pod) pod (podQueue st)\<rparr>"

text \<open>
  The predicate that \<open>handleSchedulingError\<close> hands to \<open>Listen\<close>, as a function of the
  scheduler it reads when an offer arrives.
\<close>

definition listenerPred :: "sched_env \<Rightarrow> string \<Rightarrow> sched \<Rightarrow> OfferDetails \<Rightarrow> bool" where
  "listenerPred env taskId st offer =
     (case getTask st taskId of
        (task, statePending) \<Rightarrow>
          (case task of
             None \<Rightarrow> False
           | Some a \<Rightarrow> \<not> launched (heap st a) \<and> AcceptOffer env (heap st a) offer)
      | (task, other) \<Rightarrow> False)"

text \<open>\<open>now\<close> is the reading of the backoff table's clock.\<close>

definition handleSchedulingError :: "sched_env \<Rightarrow> nat \<Rightarrow> api_Pod \<Rightarrow> error \<Rightarrow> sched \<Rightarrow> sched" where
  "handleSchedulingError env now pod schedulingErr st =
     (if schedulingErr = noSuchPodErr then st
      else
        (let ctx = pod_Namespace pod in
         case makePodKey env ctx (pod_Name pod) of
           Inl err \<Rightarrow> st
         | Inr podKey \<Rightarrow>
             (let st1 = gc env now st in
              case taskForPod st1 podKey of
                None \<Rightarrow> st1
              | Some taskId \<Rightarrow>
                  (case getTask st1 taskId of
                     (task, statePending) \<Rightarrow>
                       (case task of
                          None \<Rightarrow> st1
                        | Some a \<Rightarrow>
                            if launched (heap st1 a) then st1
                            else
                              (let (offersAvailable, st2) =
                                     (if schedulingErr = noSuitableOffersErr
                                      then (case Listen podKey taskId st1 of
                                              (ch, s) \<Rightarrow> (Some ch, s))
                                      else (None, st1));
                                   (delay, st3) = getBackoff env now podKey st2
                               in requeue env \<lparr>p_Pod = pod, p_deadline = None, p_delay = Some delay,
                                           p_notify = offersAvailable\<rparr> st3))
                   | (task, other) \<Rightarrow> st1))))"

definition deleteOne :: "sched_env \<Rightarrow> Pod \<Rightarrow> sched \<Rightarrow> error option \<times> sched" where
  "deleteOne env pod st =
     (let ctx = pod_Namespace (p_Pod pod) in
      case makePodKey env ctx (pod_Name (p_Pod pod)) of
        Inl err \<Rightarrow> (Some err, st)
      | Inr podKey \<Rightarrow>
          (let st1 = dequeue (GetUID env pod) st;
               kill = (\<lambda>a taskId.
                  killTask env taskId
                    (updTask a (\<lambda>t. t\<lparr>deleted := True, pt_Pod := (pt_Pod t)\<lparr>pod_Host := []\<rparr>\<rparr>) st1))
           in case taskForPod st1 podKey of
                None \<Rightarrow> (Some noSuchPodErr, st1)
              | Some taskId \<Rightarrow>
                  (case getTask st1 taskId of
                     (Some a, statePending) \<Rightarrow>
                       (let task = heap st1 a in
                        if \<not> launched task then
                          (let st2 = (if hasAcceptedOffer task
                                      then updTask a ClearTaskInfo (Release (GetOfferId task) st1)
                                      else st1)
                           in (None, unregisterPodTask a st2))
                        else kill a taskId)
                   | (Some a, stateRunning) \<Rightarrow> kill a taskId
                   | (None, statePending) \<Rightarrow> (Some (Panic ''nil task''), st1)
                   | (None, stateRunning) \<Rightarrow> (Some (Panic ''nil task''), st1)
                   | (task, other) \<Rightarrow> (Some noSuchTaskErr, st1))))"

section \<open>Concrete inputs\<close>

definition env0 :: exec_env where
  "env0 = \<lparr>yamlUnmarshal = (\<lambda>data. if data = ''bad'' then Inl (External ''yaml'')
                 else Inr \<lparr>bp_Name = data, bp_Namespace = ''default'', bp_SelfLink = [],
                           bp_Containers = []\<rparr>),
            GetPodFullName = (\<lambda>name ns source. name @ ''.'' @ ns @ ''.'' @ source)\<rparr>"

definition task1 :: TaskInfo where
  "task1 = \<lparr>ti_TaskId = Some ''t1'', ti_SlaveId = None, ti_Data = Some ''foo''\<rparr>"

definition badTask :: TaskInfo where
  "badTask = \<lparr>ti_TaskId = Some ''t2'', ti_SlaveId = None, ti_Data = Some ''bad''\<rparr>"

definition exec1 :: KubernetesExecutor where
  "exec1 = LaunchTask env0 task1 (Registered (New ''kube''))"

definition podFoo :: api_Pod where
  "podFoo = \<lparr>pod_Name = ''foo'', pod_Namespace = ''default'', pod_Host = []\<rparr>"

definition offer1 :: OfferDetails where
  "offer1 = \<lparr>od_Id = ''O1'', od_SlaveId = ''S1'', od_Hostname = ''host1''\<rparr>"

definition taskFoo :: PodTask where
  "taskFoo = \<lparr>pt_ID = ''task-foo'', pt_podKey = ''default/foo'', pt_Pod = podFoo,
               pt_Offer = None, pt_TaskInfo = clearedTaskInfo, launched = False,
               deleted = False\<rparr>"

definition binding1 :: Binding where
  "binding1 = \<lparr>b_Namespace = ''default'', b_PodID = ''foo'', b_Host = ''host1''\<rparr>"

text \<open>
  A first-come-first-served world: the matching function takes offer \<open>O1\<close> if it is
  registered, and every remote call succeeds.
\<close>

definition env1 :: sched_env where
  "env1 = \<lparr>makePodKey = (\<lambda>ns name. Inr (ns @ ''/'' @ name)),
            metaName = (\<lambda>pod. Inr (pod_Name pod)),
            newPodTask = (\<lambda>ctx pod. Inr (taskFoo\<lparr>pt_Pod := pod\<rparr>)),
            algorithm = (\<lambda>reg sl t. case reg ''O1'' of
                           None \<Rightarrow> (Inl noSuitableOffersErr, reg)
                         | Some offer \<Rightarrow> (Inr (po_Details offer),
                                          reg(''O1'' \<mapsto> offer\<lparr>po_acquired := True\<rparr>))),
            AcceptOffer = (\<lambda>t offer. True),
            getPod = (\<lambda>ns name. Inr podFoo),
            listServiceEnv = (\<lambda>ns. Inr []),
            convert = (\<lambda>pod. Inr \<lparr>bp_Name = pod_Name pod, bp_Namespace = pod_Namespace pod,
                                   bp_SelfLink = [], bp_Containers = []\<rparr>),
            yamlMarshal = (\<lambda>bp. Inr (bp_Name bp)),
            postBinding = (\<lambda>ns b. None),
            driverLaunchTasks = (\<lambda>offerId tis. None),
            driverKillTask = (\<lambda>taskId. None),
            GetUID = (\<lambda>p. pod_Namespace (p_Pod p) @ ''/'' @ pod_Name (p_Pod p)),
            maxDuration = 60\<rparr>"

text \<open>The same world with a control plane that refuses the binding.\<close>

definition env2 :: sched_env where
  "env2 = env1\<lparr>postBinding := (\<lambda>ns b. Some (External ''binding refused''))\<rparr>"

text \<open>One slave, one live offer, nothing scheduled yet.\<close>

definition sched0 :: sched where
  "sched0 = \<lparr>heap = (\<lambda>a. taskFoo), nextAddr = 0, podToTask = Map.empty,
              pendingTasks = Map.empty, runningTasks = Map.empty, finishedTasks = [],
              slaves = [''S1'' \<mapsto> \<lparr>HostName = ''host1''\<rparr>],
              offers = [''O1'' \<mapsto> \<lparr>po_Details = offer1, po_expired = False,
                                     po_acquired = False\<rparr>],
              listeners = Map.empty, nextChan = 0, podQueue = Map.empty, podStore = [],
              perPodBackoff = Map.empty, driverCalls = []\<rparr>"

text \<open>After \<open>Schedule\<close> of pod foo: its task is pending and holds offer \<open>O1\<close>.\<close>

definition sched1 :: sched where
  "sched1 = \<lparr>heap = (\<lambda>a. taskFoo)(0 := FillTaskInfo offer1 taskFoo), nextAddr = 1,
              podToTask = [''default/foo'' \<mapsto> ''task-foo''],
              pendingTasks = [''task-foo'' \<mapsto> 0], runningTasks = Map.empty,
              finishedTasks = [],
              slaves = [''S1'' \<mapsto> \<lparr>HostName = ''host1''\<rparr>],
              offers = [''O1'' \<mapsto> \<lparr>po_Details = offer1, po_expired = False,
                                     po_acquired = True\<rparr>],
              listeners = Map.empty, nextChan = 0, podQueue = Map.empty, podStore = [],
              perPodBackoff = Map.empty, driverCalls = []\<rparr>"

text \<open>Variants of that state: the task launched, the task running, the slave gone.\<close>

definition schedLaunched :: sched where
  "schedLaunched = updTask 0 (\<lambda>t. t\<lparr>launched := True\<rparr>) sched1"

definition schedRunning :: sched where
  "schedRunning = schedLaunched\<lparr>pendingTasks := Map.empty,
                                  runningTasks := [''task-foo'' \<mapsto> 0]\<rparr>"

definition schedNoSlave :: sched where
  "schedNoSlave = sched1\<lparr>slaves := Map.empty\<rparr>"

text \<open>The state \<open>sched0\<close> after the reflector has filed the deletion of pod foo.\<close>

definition schedDeleted :: sched where
  "schedDeleted = sched0\<lparr>podStore := [(''foo'', DELETE_EVENT)]\<rparr>"

text \<open>Pod foo as the queue holds it, and \<open>sched0\<close> with that pod waiting in the delay queue.\<close>

definition podW :: Pod where
  "podW = \<lparr>p_Pod = podFoo, p_deadline = None, p_delay = None, p_notify = None\<rparr>"

definition schedQueued :: sched where
  "schedQueued = sched0\<lparr>podQueue := [''default/foo'' \<mapsto> podW]\<rparr>"

text \<open>Pod foo waiting in the delay queue while its task is pending, and while it runs.\<close>

definition sched1Queued :: sched where
  "sched1Queued = sched1\<lparr>podQueue := [''default/foo'' \<mapsto> podW]\<rparr>"

definition schedRunningQueued :: sched where
  "schedRunningQueued = schedRunning\<lparr>podQueue := [''default/foo'' \<mapsto> podW]\<rparr>"

text \<open>The task of pod foo finished: its id is on the finished list and in no task map.\<close>

definition schedFinished :: sched where
  "schedFinished = sched1\<lparr>pendingTasks := Map.empty, finishedTasks := [''task-foo'']\<rparr>"

section \<open>Outcomes of the binder\<close>

text \<open>
  Outcome (a) of \<open>bind\<close>: no error, the task is launched and the offer it consumed is no
  longer in the registry. Outcome (b): an error, the offer is not held any more, the task
  has no offer and an empty TaskInfo, and the store still has the task as pending.
\<close>

definition bindLaunched :: "OfferDetails \<Rightarrow> nat \<Rightarrow> (error + unit) \<times> sched \<Rightarrow> bool" where
  "bindLaunched od a out =
     (fst out = Inr () \<and> launched (heap (snd out) a) \<and> Get (snd out) (od_Id od) = None)"

definition bindReleased ::
  "string \<Rightarrow> OfferDetails \<Rightarrow> nat \<Rightarrow> (error + unit) \<times> sched \<Rightarrow> bool" where
  "bindReleased taskId od a out =
     (isl (fst out) \<and>
      (case Get (snd out) (od_Id od) of None \<Rightarrow> True | Some offer \<Rightarrow> \<not> po_acquired offer) \<and>
      pt_Offer (heap (snd out) a) = None \<and>
      pt_TaskInfo (heap (snd out) a) = clearedTaskInfo \<and>
      getTask (snd out) taskId = (Some a, statePending))"

section \<open>Properties of the executor\<close>

lemma exec1_eq:
  "exec1 = \<lparr>registered = True,
     tasks = [(''t1'', \<lparr>mesosTaskInfo = task1, podName = ''foo.default.kube''\<rparr>)],
     pods = [(''foo.default.kube'', \<lparr>bp_Name = ''foo'', bp_Namespace = ''default'',
                bp_SelfLink = [], bp_Containers = []\<rparr>)],
     sourcename = ''kube'',
     updateChan = [\<lparr>pu_Op = SET, pu_Pods = [\<lparr>bp_Name = ''foo'', bp_Namespace = ''default'',
                bp_SelfLink = [], bp_Containers = []\<rparr>]\<rparr>],
     driverStatus = [],
     watchers = [(task1, ''foo.default.kube'')]\<rparr>"
  by (simp add: exec1_def LaunchTask_def Registered_def New_def env0_def task1_def
        GetTaskIdValue_def GetData_def pushPods_def Let_def)

text \<open>
  C7. A LaunchTask request received while the executor is not registered sends TASK_FAILED
  and changes nothing else, so no task is recorded. On a registered executor a request whose
  task id is already in the task map leaves the executor exactly as it was: no status
  update, no state change. Otherwise a payload that \<open>yaml.Unmarshal\<close> rejects sends
  TASK_FAILED and again records nothing.
\<close>

theorem LaunchTask_rejections:
  "(\<not> registered k \<longrightarrow>
      LaunchTask env taskInfo k =
        k\<lparr>driverStatus := driverStatus k @
            [\<lparr>ts_TaskId = ti_TaskId taskInfo, ts_State = TASK_FAILED,
              ts_Message = ''Executor not registered yet'', ts_Data = None\<rparr>]\<rparr>) \<and>
   (registered k \<and> map_of (tasks k) (GetTaskIdValue taskInfo) \<noteq> None \<longrightarrow>
      LaunchTask env taskInfo k = k) \<and>
   (registered k \<and> map_of (tasks k) (GetTaskIdValue taskInfo) = None \<and>
    yamlUnmarshal env (GetData taskInfo) = Inl err \<longrightarrow>
      LaunchTask env taskInfo k =
        k\<lparr>driverStatus := driverStatus k @
            [\<lparr>ts_TaskId = ti_TaskId taskInfo, ts_State = TASK_FAILED,
              ts_Message = ''Failed to extract yaml data'', ts_Data = None\<rparr>]\<rparr>)"
  by (simp add: LaunchTask_def sendStatusUpdate_def Let_def)

theorem LaunchTask_rejections_witness:
  "\<not> registered (New ''kube'') \<and>
   driverStatus (LaunchTask env0 task1 (New ''kube'')) =
     [\<lparr>ts_TaskId = Some ''t1'', ts_State = TASK_FAILED,
       ts_Message = ''Executor not registered yet'', ts_Data = None\<rparr>] \<and>
   tasks (LaunchTask env0 task1 (New ''kube'')) = [] \<and>
   registered exec1 \<and> map_of (tasks exec1) (GetTaskIdValue task1) \<noteq> None \<and>
   LaunchTask env0 task1 exec1 = exec1 \<and>
   map_of (tasks exec1) (GetTaskIdValue badTask) = None \<and>
   yamlUnmarshal env0 (GetData badTask) = Inl (External ''yaml'') \<and>
   driverStatus (LaunchTask env0 badTask exec1) =
     [\<lparr>ts_TaskId = Some ''t2'', ts_State = TASK_FAILED,
       ts_Message = ''Failed to extract yaml data'', ts_Data = None\<rparr>] \<and>
   tasks (LaunchTask env0 badTask exec1) = tasks exec1"
proof -
  have h1: "\<not> registered (New ''kube'')"
    by (simp add: New_def)
  have h2: "registered exec1 \<and> map_of (tasks exec1) (GetTaskIdValue task1) \<noteq> None"
    by (simp add: exec1_eq GetTaskIdValue_def task1_def)
  have h3: "registered exec1 \<and> map_of (tasks exec1) (GetTaskIdValue badTask) = None \<and>
            yamlUnmarshal env0 (GetData badTask) = Inl (External ''yaml'')"
    by (simp add: exec1_eq GetTaskIdValue_def GetData_def badTask_def env0_def)
  from LaunchTask_rejections [of "New ''kube''" env0 task1 "External ''yaml''"] h1
  have c1: "LaunchTask env0 task1 (New ''kube'') =
        (New ''kube'')\<lparr>driverStatus := driverStatus (New ''kube'') @
            [\<lparr>ts_TaskId = ti_TaskId task1, ts_State = TASK_FAILED,
              ts_Message = ''Executor not registered yet'', ts_Data = None\<rparr>]\<rparr>"
    by blast
  from LaunchTask_rejections [of exec1 env0 task1 "External ''yaml''"] h2
  have c2: "LaunchTask env0 task1 exec1 = exec1"
    by blast
  from LaunchTask_rejections [of exec1 env0 badTask "External ''yaml''"] h3
  have c3: "LaunchTask env0 badTask exec1 =
        exec1\<lparr>driverStatus := driverStatus exec1 @
            [\<lparr>ts_TaskId = ti_TaskId badTask, ts_State = TASK_FAILED,
              ts_Message = ''Failed to extract yaml data'', ts_Data = None\<rparr>]\<rparr>"
    by blast
  have d1: "driverStatus (LaunchTask env0 task1 (New ''kube'')) =
     [\<lparr>ts_TaskId = Some ''t1'', ts_State = TASK_FAILED,
       ts_Message = ''Executor not registered yet'', ts_Data = None\<rparr>] \<and>
     tasks (LaunchTask env0 task1 (New ''kube'')) = []"
    unfolding c1 by (simp add: New_def task1_def)
  have d3: "driverStatus (LaunchTask env0 badTask exec1) =
     [\<lparr>ts_TaskId = Some ''t2'', ts_State = TASK_FAILED,
       ts_Message = ''Failed to extract yaml data'', ts_Data = None\<rparr>] \<and>
     tasks (LaunchTask env0 badTask exec1) = tasks exec1"
    unfolding c3 by (simp add: exec1_eq badTask_def)
  from h1 h2 h3 c2 d1 d3 show ?thesis by blast
qed

text \<open>
  C8. Whatever \<open>LaunchTask\<close>, \<open>killPodForTask\<close> or \<open>reportLostTask\<close> sends on the update
  channel is a single update, its operation is SET, and its pods are all the values of
  the bound-pods map as the map stands when the update is sent (the map does not change
  between the send and the return). Nothing else is ever put on the channel.
\<close>

theorem pushes_are_complete_SET:
  "(updateChan (LaunchTask env taskInfo k) = updateChan k \<or>
    updateChan (LaunchTask env taskInfo k) =
      updateChan k @ [\<lparr>pu_Op = SET, pu_Pods = map snd (pods (LaunchTask env taskInfo k))\<rparr>]) \<and>
   (updateChan (killPodForTask tid reason k) = updateChan k \<or>
    updateChan (killPodForTask tid reason k) =
      updateChan k @ [\<lparr>pu_Op = SET, pu_Pods = map snd (pods (killPodForTask tid reason k))\<rparr>]) \<and>
   (updateChan (reportLostTask tid reason k) = updateChan k \<or>
    updateChan (reportLostTask tid reason k) =
      updateChan k @ [\<lparr>pu_Op = SET, pu_Pods = map snd (pods (reportLostTask tid reason k))\<rparr>])"
  by (simp add: LaunchTask_def killPodForTask_def reportLostTask_def sendStatusUpdate_def
        pushPods_def Let_def split: sum.split option.split)

text \<open>
  C10. For a task id that is not in the task map, \<open>killPodForTask\<close> and \<open>reportLostTask\<close>
  return the executor unchanged: the task map and the bound-pods map are as before, nothing
  is sent on the update channel and no status update goes to the driver. \<open>KillTask\<close> for
  such a task therefore sends no TASK_KILLED.
\<close>

theorem unknown_task_is_noop:
  "map_of (tasks k) tid = None \<Longrightarrow>
     killPodForTask tid reason k = k \<and> reportLostTask tid reason k = k \<and> KillTask tid k = k"
  by (simp add: killPodForTask_def reportLostTask_def KillTask_def)

theorem unknown_task_is_noop_witness:
  "map_of (tasks exec1) ''t9'' = None \<and>
   killPodForTask ''t9'' ''Task killed'' exec1 = exec1 \<and>
   reportLostTask ''t9'' ''Task lost: launch failed'' exec1 = exec1 \<and>
   KillTask ''t9'' exec1 = exec1"
proof -
  have h: "map_of (tasks exec1) ''t9'' = None"
    by (simp add: exec1_eq)
  from unknown_task_is_noop [OF h, of "''Task killed''"]
       unknown_task_is_noop [OF h, of "''Task lost: launch failed''"] h
  show ?thesis by simp
qed

section \<open>Properties of the scheduler\<close>

lemma getTask_cong:
  "runningTasks s' = runningTasks s \<Longrightarrow> pendingTasks s' = pendingTasks s \<Longrightarrow>
   finishedTasks s' = finishedTasks s \<Longrightarrow> getTask s' = getTask s"
  by (rule ext) (simp add: getTask_def split: option.split)

lemma releaseAndClear_released:
  "bindReleased taskId od a (Inl e, releaseAndClear (od_Id od) a s) =
     (getTask s taskId = (Some a, statePending))"
proof -
  have g: "getTask (releaseAndClear (od_Id od) a s) = getTask s"
    by (rule getTask_cong)
       (simp_all add: releaseAndClear_def updTask_def Release_def split: option.split)
  show ?thesis
    by (simp add: bindReleased_def g)
       (simp add: releaseAndClear_def updTask_def Release_def Get_def ClearTaskInfo_def
          split: option.split)
qed

lemma prepareTaskForLaunch_keeps:
  assumes "prepareTaskForLaunch env ctx machine a s = (r, s')"
  shows "getTask s' = getTask s \<and> offers s' = offers s \<and>
         pt_Offer (heap s' a) = pt_Offer (heap s a) \<and> driverCalls s' = driverCalls s"
proof -
  have "getTask s' = getTask s"
    using assms
    by (intro getTask_cong)
       (auto simp: prepareTaskForLaunch_def updTask_def Let_def split: sum.splits)
  moreover have "offers s' = offers s \<and> pt_Offer (heap s' a) = pt_Offer (heap s a) \<and>
      driverCalls s' = driverCalls s"
    using assms
    by (auto simp: prepareTaskForLaunch_def updTask_def Let_def split: sum.splits)
  ultimately show ?thesis by simp
qed

lemma launchTask_keeps:
  assumes "launchTask env a s = (r, s')"
  shows "getTask s' = getTask s \<and> offers s' = offers s \<and> heap s' = heap s"
proof -
  have "getTask s' = getTask s"
    using assms by (intro getTask_cong) (auto simp: launchTask_def Let_def split: option.splits)
  moreover have "offers s' = offers s \<and> heap s' = heap s"
    using assms by (auto simp: launchTask_def Let_def split: option.splits)
  ultimately show ?thesis by simp
qed

lemma bind_outcomes_exclusive: "\<not> (bindLaunched od a out \<and> bindReleased taskId od a out)"
  by (auto simp: bindLaunched_def bindReleased_def)

text \<open>
  C1. Let the binder find a task pending in the store with an offer attached. Then \<open>bind\<close>
  ends in exactly one of two ways: (a) without error, with the task launched and the
  consumed offer gone from the offer registry; or (b) with an error, the offer released,
  the task without offer and with an empty TaskInfo, and the task still pending. The two
  exclude each other and there is no third way, whatever the control plane and the
  driver answer.
\<close>

theorem bind_two_outcomes:
  assumes pending: "getTask st taskId = (Some a, statePending)"
      and offer: "pt_Offer (heap st a) = Some od"
  shows "(bindLaunched od a (bind env ctx binding a st) \<and>
            \<not> bindReleased taskId od a (bind env ctx binding a st)) \<or>
         (bindReleased taskId od a (bind env ctx binding a st) \<and>
            \<not> bindLaunched od a (bind env ctx binding a st))"
proof -
  let ?out = "bind env ctx binding a st"
  have one: "bindLaunched od a ?out \<or> bindReleased taskId od a ?out"
  proof (cases "case Get st (od_Id od) of None \<Rightarrow> True | Some offer \<Rightarrow> HasExpired offer")
    case True
    then have "?out = (Inl (ExpiredOffer (pt_ID (heap st a))), releaseAndClear (od_Id od) a st)"
      using offer by (simp add: bind_def hasAcceptedOffer_def GetOfferId_def Let_def)
    then show ?thesis using pending by (simp add: releaseAndClear_released)
  next
    case live: False
    obtain r1 s1 where p: "prepareTaskForLaunch env ctx (b_Host binding) a st = (r1, s1)"
      by (cases "prepareTaskForLaunch env ctx (b_Host binding) a st")
    note k1 = prepareTaskForLaunch_keeps [OF p]
    show ?thesis
    proof (cases r1)
      case (Some err)
      then have "?out = (Inl (LaunchFailed (pt_ID (heap st a)) err), releaseAndClear (od_Id od) a s1)"
        using offer live p by (simp add: bind_def hasAcceptedOffer_def GetOfferId_def Let_def)
      then show ?thesis using pending k1 by (simp add: releaseAndClear_released)
    next
      case prepared: None
      show ?thesis
      proof (cases "postBinding env ctx binding")
        case (Some err)
        then have "?out = (Inl (LaunchFailed (pt_ID (heap st a)) err), releaseAndClear (od_Id od) a s1)"
          using offer live p prepared
          by (simp add: bind_def hasAcceptedOffer_def GetOfferId_def Let_def)
        then show ?thesis using pending k1 by (simp add: releaseAndClear_released)
      next
        case posted: None
        obtain r2 s2 where l: "launchTask env a s1 = (r2, s2)"
          by (cases "launchTask env a s1")
        note k2 = launchTask_keeps [OF l]
        show ?thesis
        proof (cases r2)
          case (Some err)
          then have "?out = (Inl (LaunchFailed (pt_ID (heap st a)) err), releaseAndClear (od_Id od) a s2)"
            using offer live p prepared posted l
            by (simp add: bind_def hasAcceptedOffer_def GetOfferId_def Let_def)
          then show ?thesis using pending k1 k2 by (simp add: releaseAndClear_released)
        next
          case None
          then have "?out = (Inr (), updTask a
                (\<lambda>t. t\<lparr>pt_Pod := (pt_Pod t)\<lparr>pod_Host := b_Host binding\<rparr>, launched := True\<rparr>)
                (Invalidate (od_Id od) s2))"
            using offer live p prepared posted l
            by (simp add: bind_def hasAcceptedOffer_def GetOfferId_def Let_def)
          then have "bindLaunched od a ?out"
            by (simp add: bindLaunched_def updTask_def Invalidate_def Get_def)
          then show ?thesis ..
        qed
      qed
    qed
  qed
  with bind_outcomes_exclusive [of od a ?out taskId] show ?thesis by blast
qed


lemma happy_path_Schedule: "Schedule env1 podFoo sched0 = (Inr ''host1'', sched1)"
  by (simp add: Schedule_def doSchedule_def registerPodTask_def createPodTask_def Poll_def
        taskForPod_def slaveFor_def updTask_def env1_def sched0_def sched1_def podFoo_def
        taskFoo_def offer1_def Let_def)

lemma sched1_pending: "getTask sched1 ''task-foo'' = (Some 0, statePending)"
  by (simp add: getTask_def sched1_def)

lemma sched1_offer: "pt_Offer (heap sched1 0) = Some offer1"
  by (simp add: sched1_def FillTaskInfo_def)

lemma bind_env1: "fst (bind env1 ''default'' binding1 0 sched1) = Inr ()"
  by (simp add: bind_def sched1_def FillTaskInfo_def hasAcceptedOffer_def GetOfferId_def
        Get_def HasExpired_def prepareTaskForLaunch_def getServiceEnvironmentVariables_def
        launchTask_def updTask_def env1_def offer1_def Let_def)

lemma bind_env2: "isl (fst (bind env2 ''default'' binding1 0 sched1))"
  by (simp add: bind_def sched1_def FillTaskInfo_def hasAcceptedOffer_def GetOfferId_def
        Get_def HasExpired_def prepareTaskForLaunch_def getServiceEnvironmentVariables_def
        launchTask_def updTask_def env1_def env2_def offer1_def Let_def)

theorem bind_two_outcomes_witness:
  "getTask sched1 ''task-foo'' = (Some 0, statePending) \<and>
   pt_Offer (heap sched1 0) = Some offer1 \<and>
   bindLaunched offer1 0 (bind env1 ''default'' binding1 0 sched1) \<and>
   \<not> bindReleased ''task-foo'' offer1 0 (bind env1 ''default'' binding1 0 sched1) \<and>
   bindReleased ''task-foo'' offer1 0 (bind env2 ''default'' binding1 0 sched1) \<and>
   \<not> bindLaunched offer1 0 (bind env2 ''default'' binding1 0 sched1)"
proof -
  have nr: "\<not> bindReleased ''task-foo'' offer1 0 (bind env1 ''default'' binding1 0 sched1)"
    by (simp add: bindReleased_def bind_env1)
  have nl: "\<not> bindLaunched offer1 0 (bind env2 ''default'' binding1 0 sched1)"
    using bind_env2 by (auto simp: bindLaunched_def)
  from bind_two_outcomes [OF sched1_pending sched1_offer, of env1 "''default''" binding1] nr
       bind_two_outcomes [OF sched1_pending sched1_offer, of env2 "''default''" binding1] nl
       sched1_pending sched1_offer
  show ?thesis by blast
qed

lemma sched1_key: "makePodKey env1 (pod_Namespace podFoo) (pod_Name podFoo) = Inr ''default/foo''"
  by (simp add: env1_def podFoo_def)

lemma schedLaunched_pending: "getTask schedLaunched ''task-foo'' = (Some 0, statePending)"
  by (simp add: getTask_def schedLaunched_def updTask_def sched1_def)


lemma sched1_match: "fst (algorithm env1 (offers sched1) (slaves sched1) (heap sched1 0)) = Inr offer1"
  by (simp add: env1_def sched1_def)

lemma schedNoSlave_match:
  "fst (algorithm env1 (offers schedNoSlave) (slaves schedNoSlave) (heap schedNoSlave 0)) = Inr offer1"
  by (simp add: env1_def schedNoSlave_def sched1_def)

text \<open>
  C2. When no task exists under the pod's key and the historical store holds a DELETE
  event for the pod (the store is polled under the pod's meta name, the index under which
  the reflector files it), \<open>Schedule\<close> returns \<open>noSuchPod\<close>. Nothing but the consumed event
  changes: no task object is created and neither task map gets an entry.
\<close>

theorem Schedule_aborts_on_deleted_pod:
  assumes "makePodKey env (pod_Namespace pod) (pod_Name pod) = Inr podKey"
      and "taskForPod st podKey = None"
      and "metaName env pod = Inr name"
      and "(name, DELETE_EVENT) \<in> set (podStore st)"
  shows "Schedule env pod st =
           (Inl noSuchPodErr, st\<lparr>podStore := remove1 (name, DELETE_EVENT) (podStore st)\<rparr>)"
  using assms by (simp add: Schedule_def Poll_def)

theorem Schedule_aborts_on_deleted_pod_witness:
  "makePodKey env1 (pod_Namespace podFoo) (pod_Name podFoo) = Inr ''default/foo'' \<and>
   taskForPod schedDeleted ''default/foo'' = None \<and>
   metaName env1 podFoo = Inr ''foo'' \<and>
   (''foo'', DELETE_EVENT) \<in> set (podStore schedDeleted) \<and>
   Schedule env1 podFoo schedDeleted = (Inl noSuchPodErr, sched0)"
proof -
  have h1: "makePodKey env1 (pod_Namespace podFoo) (pod_Name podFoo) = Inr ''default/foo''"
    by (simp add: env1_def podFoo_def)
  have h2: "taskForPod schedDeleted ''default/foo'' = None"
    by (simp add: taskForPod_def schedDeleted_def sched0_def)
  have h3: "metaName env1 podFoo = Inr ''foo''"
    by (simp add: env1_def podFoo_def)
  have h4: "(''foo'', DELETE_EVENT) \<in> set (podStore schedDeleted)"
    by (simp add: schedDeleted_def)
  have e: "schedDeleted\<lparr>podStore := remove1 (''foo'', DELETE_EVENT) (podStore schedDeleted)\<rparr>
             = sched0"
    by (simp add: schedDeleted_def sched0_def)
  from Schedule_aborts_on_deleted_pod [OF h1 h2 h3 h4] e h1 h2 h3 h4
  show ?thesis by simp
qed


text \<open>
  C4. When offer matching succeeds: if the slave of the chosen offer is not in the slave
  map, \<open>doSchedule\<close> returns an error, the offer is no longer in the registry and the task's
  TaskInfo is cleared; if the slave is known, \<open>doSchedule\<close> returns the slave's hostname and
  the task's TaskInfo is filled from the offer.
\<close>

theorem doSchedule_checks_slave:
  assumes "fst (algorithm env (offers st) (slaves st) (heap st a)) = Inr offer"
  shows "(slaveFor st (od_SlaveId offer) = None \<longrightarrow>
            fst (doSchedule env (Inr a, st)) =
              Inl (SlaveDisappeared (od_SlaveId offer) (pt_ID (heap st a))) \<and>
            Get (snd (doSchedule env (Inr a, st))) (od_Id offer) = None \<and>
            heap (snd (doSchedule env (Inr a, st))) a = ClearTaskInfo (heap st a)) \<and>
         (\<forall>slave. slaveFor st (od_SlaveId offer) = Some slave \<longrightarrow>
            fst (doSchedule env (Inr a, st)) = Inr (HostName slave) \<and>
            heap (snd (doSchedule env (Inr a, st))) a = FillTaskInfo offer (heap st a))"
  using assms
  by (cases "algorithm env (offers st) (slaves st) (heap st a)")
     (simp add: doSchedule_def slaveFor_def Let_def updTask_def Invalidate_def Release_def Get_def
        split: option.split)



theorem doSchedule_checks_slave_witness:
  "fst (algorithm env1 (offers schedNoSlave) (slaves schedNoSlave) (heap schedNoSlave 0)) = Inr offer1 \<and>
   slaveFor schedNoSlave (od_SlaveId offer1) = None \<and>
   fst (doSchedule env1 (Inr 0, schedNoSlave)) = Inl (SlaveDisappeared ''S1'' ''task-foo'') \<and>
   Get (snd (doSchedule env1 (Inr 0, schedNoSlave))) ''O1'' = None \<and>
   pt_TaskInfo (heap (snd (doSchedule env1 (Inr 0, schedNoSlave))) 0) = clearedTaskInfo \<and>
   fst (algorithm env1 (offers sched1) (slaves sched1) (heap sched1 0)) = Inr offer1 \<and>
   slaveFor sched1 (od_SlaveId offer1) = Some \<lparr>HostName = ''host1''\<rparr> \<and>
   fst (doSchedule env1 (Inr 0, sched1)) = Inr ''host1'' \<and>
   pt_Offer (heap (snd (doSchedule env1 (Inr 0, sched1))) 0) = Some offer1"
proof -
  have n: "slaveFor schedNoSlave (od_SlaveId offer1) = None"
    by (simp add: slaveFor_def schedNoSlave_def)
  have k: "slaveFor sched1 (od_SlaveId offer1) = Some \<lparr>HostName = ''host1''\<rparr>"
    by (simp add: slaveFor_def sched1_def offer1_def)
  from doSchedule_checks_slave [OF schedNoSlave_match] n
  have c1: "fst (doSchedule env1 (Inr 0, schedNoSlave)) =
              Inl (SlaveDisappeared (od_SlaveId offer1) (pt_ID (heap schedNoSlave 0))) \<and>
            Get (snd (doSchedule env1 (Inr 0, schedNoSlave))) (od_Id offer1) = None \<and>
            heap (snd (doSchedule env1 (Inr 0, schedNoSlave))) 0 = ClearTaskInfo (heap schedNoSlave 0)"
    by blast
  from doSchedule_checks_slave [OF sched1_match] k
  have c2: "fst (doSchedule env1 (Inr 0, sched1)) = Inr (HostName \<lparr>HostName = ''host1''\<rparr>) \<and>
            heap (snd (doSchedule env1 (Inr 0, sched1))) 0 = FillTaskInfo offer1 (heap sched1 0)"
    by blast
  have i: "od_SlaveId offer1 = ''S1'' \<and> od_Id offer1 = ''O1'' \<and> pt_ID (heap schedNoSlave 0) = ''task-foo''"
    by (simp add: offer1_def schedNoSlave_def sched1_def FillTaskInfo_def taskFoo_def)
  from c1 c2 i n k schedNoSlave_match sched1_match
  show ?thesis by (simp add: ClearTaskInfo_def FillTaskInfo_def)
qed

lemma dequeue_getTask: "getTask (dequeue uid st) = getTask st"
  by (rule getTask_cong) (simp_all add: dequeue_def)

lemma dequeue_reads:
  "taskForPod (dequeue uid st) = taskForPod st"
  "heap (dequeue uid st) = heap st" "driverCalls (dequeue uid st) = driverCalls st"
  "offers (dequeue uid st) = offers st"
  by (simp_all add: dequeue_def taskForPod_def fun_eq_iff)

lemma deleteOne_bad_key:
  "makePodKey env (pod_Namespace (p_Pod pod)) (pod_Name (p_Pod pod)) = Inl err \<Longrightarrow>
     deleteOne env pod st = (Some err, st)"
  by (simp add: deleteOne_def)

lemma podW_key: "makePodKey env1 (pod_Namespace (p_Pod podW)) (pod_Name (p_Pod podW)) = Inr ''default/foo''"
  by (simp add: env1_def podW_def podFoo_def)

lemma schedFinished_finished: "getTask schedFinished ''task-foo'' = (None, stateFinished)"
  by (simp add: getTask_def schedFinished_def sched1_def)

text \<open>
  C5, as the claim words it, has the deleter return \<open>noSuchPod\<close> without changing state when
  no task resolves. The deleter removes the pod from the delay queue before it looks for
  the task: with pod foo waiting in the queue and no task for it, \<open>deleteOne\<close> returns
  \<open>noSuchPod\<close> and the queue has lost the pod.
\<close>

theorem deleteOne_changes_queue_counterexample:
  "taskForPod schedQueued ''default/foo'' = None \<and>
   fst (deleteOne env1 podW schedQueued) = Some noSuchPodErr \<and>
   snd (deleteOne env1 podW schedQueued) \<noteq> schedQueued"
proof -
  have t: "taskForPod schedQueued ''default/foo'' = None"
    by (simp add: taskForPod_def schedQueued_def sched0_def)
  have d: "deleteOne env1 podW schedQueued = (Some noSuchPodErr, sched0)"
    by (simp add: deleteOne_def dequeue_def Delete_def taskForPod_def Let_def
          env1_def podW_def podFoo_def schedQueued_def sched0_def)
  have "podQueue sched0 ''default/foo'' \<noteq> podQueue schedQueued ''default/foo''"
    by (simp add: schedQueued_def sched0_def)
  then have "sched0 \<noteq> schedQueued" by auto
  with t d show ?thesis by simp
qed

text \<open>
  C5, amended. Whenever the pod's key can be made, \<open>deleteOne\<close> removes the pod from the
  delay queue, whatever it finds afterwards: in each of the cases below the delay queue is
  the old one without the pod's entry. If the task that the pod's key resolves to is
  pending and not launched, its offer (if it holds one) is released and its TaskInfo
  cleared, the task leaves both maps, no call goes to the driver and no error is returned.
  If the task is pending and launched, or running, its deleted flag is set, the host of
  its pod status is emptied and \<open>KillTask\<close> of its id is requested from the driver, whose
  answer is returned. If the key resolves to no task the result is \<open>noSuchPod\<close>, if it
  resolves to the id of a finished or unknown task the result is \<open>noSuchTask\<close>, and in
  both cases nothing but the delay queue has changed.
\<close>

theorem deleteOne_outcomes:
  assumes key: "makePodKey env (pod_Namespace (p_Pod pod)) (pod_Name (p_Pod pod)) = Inr podKey"
  shows "(\<forall>taskId a.
            taskForPod st podKey = Some taskId \<and> getTask st taskId = (Some a, statePending) \<and>
            \<not> launched (heap st a) \<longrightarrow>
              podQueue (snd (deleteOne env pod st)) = (podQueue st)(GetUID env pod := None) \<and>
              fst (deleteOne env pod st) = None \<and>
              podToTask (snd (deleteOne env pod st)) (pt_podKey (heap st a)) = None \<and>
              pendingTasks (snd (deleteOne env pod st)) (pt_ID (heap st a)) = None \<and>
              driverCalls (snd (deleteOne env pod st)) = driverCalls st \<and>
              pt_Offer (heap (snd (deleteOne env pod st)) a) = None \<and>
              (if hasAcceptedOffer (heap st a)
               then heap (snd (deleteOne env pod st)) a = ClearTaskInfo (heap st a) \<and>
                    (case Get (snd (deleteOne env pod st)) (GetOfferId (heap st a)) of
                       None \<Rightarrow> True | Some offer \<Rightarrow> \<not> po_acquired offer)
               else heap (snd (deleteOne env pod st)) = heap st \<and>
                    offers (snd (deleteOne env pod st)) = offers st)) \<and>
         (\<forall>taskId a.
            taskForPod st podKey = Some taskId \<and>
            (getTask st taskId = (Some a, statePending) \<and> launched (heap st a) \<or>
             getTask st taskId = (Some a, stateRunning)) \<longrightarrow>
              podQueue (snd (deleteOne env pod st)) = (podQueue st)(GetUID env pod := None) \<and>
              fst (deleteOne env pod st) = driverKillTask env taskId \<and>
              deleted (heap (snd (deleteOne env pod st)) a) \<and>
              pod_Host (pt_Pod (heap (snd (deleteOne env pod st)) a)) = [] \<and>
              driverCalls (snd (deleteOne env pod st)) = driverCalls st @ [KillTaskCall taskId]) \<and>
         (taskForPod st podKey = None \<longrightarrow>
            deleteOne env pod st =
              (Some noSuchPodErr, st\<lparr>podQueue := (podQueue st)(GetUID env pod := None)\<rparr>)) \<and>
         (\<forall>taskId.
            taskForPod st podKey = Some taskId \<and>
            (snd (getTask st taskId) = stateFinished \<or> snd (getTask st taskId) = stateUnknown) \<longrightarrow>
            deleteOne env pod st =
              (Some noSuchTaskErr, st\<lparr>podQueue := (podQueue st)(GetUID env pod := None)\<rparr>))"
proof (intro conjI allI impI)
  fix taskId a
  assume h: "taskForPod st podKey = Some taskId \<and> getTask st taskId = (Some a, statePending) \<and>
            \<not> launched (heap st a)"
  let ?st1 = "dequeue (GetUID env pod) st"
  let ?st2 = "if hasAcceptedOffer (heap st a)
              then updTask a ClearTaskInfo (Release (GetOfferId (heap st a)) ?st1) else ?st1"
  have out: "deleteOne env pod st = (None, unregisterPodTask a ?st2)"
    using key h by (simp add: deleteOne_def Let_def dequeue_reads dequeue_getTask)
  show "podQueue (snd (deleteOne env pod st)) = (podQueue st)(GetUID env pod := None)"
    by (simp add: out unregisterPodTask_def updTask_def Release_def dequeue_def Delete_def
          split: option.split)
  show "fst (deleteOne env pod st) = None"
    by (simp add: out)
  show "podToTask (snd (deleteOne env pod st)) (pt_podKey (heap st a)) = None"
    by (simp add: out unregisterPodTask_def updTask_def Release_def ClearTaskInfo_def dequeue_def
          split: option.split)
  show "pendingTasks (snd (deleteOne env pod st)) (pt_ID (heap st a)) = None"
    by (simp add: out unregisterPodTask_def updTask_def Release_def ClearTaskInfo_def dequeue_def
          split: option.split)
  show "driverCalls (snd (deleteOne env pod st)) = driverCalls st"
    by (simp add: out unregisterPodTask_def updTask_def Release_def dequeue_def
          split: option.split)
  show "pt_Offer (heap (snd (deleteOne env pod st)) a) = None"
    by (simp add: out unregisterPodTask_def updTask_def Release_def ClearTaskInfo_def dequeue_def
          hasAcceptedOffer_def split: option.split)
  show "if hasAcceptedOffer (heap st a)
        then heap (snd (deleteOne env pod st)) a = ClearTaskInfo (heap st a) \<and>
             (case Get (snd (deleteOne env pod st)) (GetOfferId (heap st a)) of
                None \<Rightarrow> True | Some offer \<Rightarrow> \<not> po_acquired offer)
        else heap (snd (deleteOne env pod st)) = heap st \<and>
             offers (snd (deleteOne env pod st)) = offers st"
    by (simp add: out unregisterPodTask_def updTask_def Release_def Get_def dequeue_def
          split: option.split)
next
  fix taskId a
  assume h: "taskForPod st podKey = Some taskId \<and>
            (getTask st taskId = (Some a, statePending) \<and> launched (heap st a) \<or>
             getTask st taskId = (Some a, stateRunning))"
  let ?st1 = "dequeue (GetUID env pod) st"
  have out: "deleteOne env pod st =
      killTask env taskId
        (updTask a (\<lambda>t. t\<lparr>deleted := True, pt_Pod := (pt_Pod t)\<lparr>pod_Host := []\<rparr>\<rparr>) ?st1)"
    using key h by (auto simp: deleteOne_def Let_def dequeue_reads dequeue_getTask)
  show "podQueue (snd (deleteOne env pod st)) = (podQueue st)(GetUID env pod := None)"
    by (simp add: out killTask_def updTask_def dequeue_def Delete_def)
  show "fst (deleteOne env pod st) = driverKillTask env taskId"
    by (simp add: out killTask_def)
  show "deleted (heap (snd (deleteOne env pod st)) a)"
    by (simp add: out killTask_def updTask_def)
  show "pod_Host (pt_Pod (heap (snd (deleteOne env pod st)) a)) = []"
    by (simp add: out killTask_def updTask_def)
  show "driverCalls (snd (deleteOne env pod st)) = driverCalls st @ [KillTaskCall taskId]"
    by (simp add: out killTask_def updTask_def dequeue_def)
next
  assume "taskForPod st podKey = None"
  then show "deleteOne env pod st =
      (Some noSuchPodErr, st\<lparr>podQueue := (podQueue st)(GetUID env pod := None)\<rparr>)"
    using key by (simp add: deleteOne_def Let_def dequeue_reads dequeue_getTask) (simp add: dequeue_def Delete_def)
next
  fix taskId
  assume h: "taskForPod st podKey = Some taskId \<and>
     (snd (getTask st taskId) = stateFinished \<or> snd (getTask st taskId) = stateUnknown)"
  then have "deleteOne env pod st = (Some noSuchTaskErr, dequeue (GetUID env pod) st)"
    using key
    by (cases "getTask st taskId"; cases "fst (getTask st taskId)")
       (auto simp: deleteOne_def Let_def dequeue_reads dequeue_getTask)
  then show "deleteOne env pod st =
      (Some noSuchTaskErr, st\<lparr>podQueue := (podQueue st)(GetUID env pod := None)\<rparr>)"
    by (simp add: dequeue_def Delete_def)
qed


theorem deleteOne_outcomes_witness:
  "makePodKey env1 (pod_Namespace (p_Pod podW)) (pod_Name (p_Pod podW)) = Inr ''default/foo'' \<and>
   taskForPod sched1Queued ''default/foo'' = Some ''task-foo'' \<and>
   getTask sched1Queued ''task-foo'' = (Some 0, statePending) \<and>
   \<not> launched (heap sched1Queued 0) \<and>
   podQueue sched1Queued ''default/foo'' = Some podW \<and>
   podQueue (snd (deleteOne env1 podW sched1Queued)) = Map.empty \<and>
   fst (deleteOne env1 podW sched1Queued) = None \<and>
   podToTask (snd (deleteOne env1 podW sched1Queued)) ''default/foo'' = None \<and>
   pendingTasks (snd (deleteOne env1 podW sched1Queued)) ''task-foo'' = None \<and>
   driverCalls (snd (deleteOne env1 podW sched1Queued)) = [] \<and>
   pt_Offer (heap (snd (deleteOne env1 podW sched1Queued)) 0) = None \<and>
   taskForPod schedRunningQueued ''default/foo'' = Some ''task-foo'' \<and>
   getTask schedRunningQueued ''task-foo'' = (Some 0, stateRunning) \<and>
   podQueue schedRunningQueued ''default/foo'' = Some podW \<and>
   podQueue (snd (deleteOne env1 podW schedRunningQueued)) = Map.empty \<and>
   fst (deleteOne env1 podW schedRunningQueued) = None \<and>
   deleted (heap (snd (deleteOne env1 podW schedRunningQueued)) 0) \<and>
   driverCalls (snd (deleteOne env1 podW schedRunningQueued)) = [KillTaskCall ''task-foo''] \<and>
   taskForPod schedQueued ''default/foo'' = None \<and>
   deleteOne env1 podW schedQueued = (Some noSuchPodErr, sched0) \<and>
   taskForPod schedFinished ''default/foo'' = Some ''task-foo'' \<and>
   snd (getTask schedFinished ''task-foo'') = stateFinished \<and>
   deleteOne env1 podW schedFinished = (Some noSuchTaskErr, schedFinished)"
proof -
  note D = deleteOne_outcomes [OF podW_key]
  have uid: "GetUID env1 podW = ''default/foo''"
    by (simp add: env1_def podW_def podFoo_def)
  have t1: "taskForPod sched1Queued ''default/foo'' = Some ''task-foo''"
    by (simp add: taskForPod_def sched1Queued_def sched1_def)
  have g1: "getTask sched1Queued ''task-foo'' = (Some 0, statePending)"
    by (simp add: getTask_def sched1Queued_def sched1_def)
  have l1: "\<not> launched (heap sched1Queued 0)"
    by (simp add: sched1Queued_def sched1_def FillTaskInfo_def taskFoo_def)
  have i1: "pt_podKey (heap sched1Queued 0) = ''default/foo'' \<and>
            pt_ID (heap sched1Queued 0) = ''task-foo'' \<and> driverCalls sched1Queued = [] \<and>
            podQueue sched1Queued ''default/foo'' = Some podW \<and>
            (podQueue sched1Queued)(''default/foo'' := None) = Map.empty"
    by (simp add: sched1Queued_def sched1_def FillTaskInfo_def taskFoo_def)
  from D [of sched1Queued] t1 g1 l1
  have a: "podQueue (snd (deleteOne env1 podW sched1Queued)) =
        (podQueue sched1Queued)(GetUID env1 podW := None) \<and>
      fst (deleteOne env1 podW sched1Queued) = None \<and>
      podToTask (snd (deleteOne env1 podW sched1Queued)) (pt_podKey (heap sched1Queued 0)) = None \<and>
      pendingTasks (snd (deleteOne env1 podW sched1Queued)) (pt_ID (heap sched1Queued 0)) = None \<and>
      driverCalls (snd (deleteOne env1 podW sched1Queued)) = driverCalls sched1Queued \<and>
      pt_Offer (heap (snd (deleteOne env1 podW sched1Queued)) 0) = None"
    by blast
  have t2: "taskForPod schedRunningQueued ''default/foo'' = Some ''task-foo''"
    by (simp add: taskForPod_def schedRunningQueued_def schedRunning_def schedLaunched_def
          updTask_def sched1_def)
  have g2: "getTask schedRunningQueued ''task-foo'' = (Some 0, stateRunning)"
    by (simp add: getTask_def schedRunningQueued_def schedRunning_def)
  have i2: "driverKillTask env1 ''task-foo'' = None \<and> driverCalls schedRunningQueued = [] \<and>
            podQueue schedRunningQueued ''default/foo'' = Some podW \<and>
            (podQueue schedRunningQueued)(''default/foo'' := None) = Map.empty"
    by (simp add: env1_def schedRunningQueued_def schedRunning_def schedLaunched_def updTask_def
          sched1_def)
  from D [of schedRunningQueued] t2 g2
  have b: "podQueue (snd (deleteOne env1 podW schedRunningQueued)) =
        (podQueue schedRunningQueued)(GetUID env1 podW := None) \<and>
      fst (deleteOne env1 podW schedRunningQueued) = driverKillTask env1 ''task-foo'' \<and>
      deleted (heap (snd (deleteOne env1 podW schedRunningQueued)) 0) \<and>
      driverCalls (snd (deleteOne env1 podW schedRunningQueued)) =
        driverCalls schedRunningQueued @ [KillTaskCall ''task-foo'']"
    by blast
  have t3: "taskForPod schedQueued ''default/foo'' = None"
    by (simp add: taskForPod_def schedQueued_def sched0_def)
  have e3: "schedQueued\<lparr>podQueue := (podQueue schedQueued)(GetUID env1 podW := None)\<rparr> = sched0"
    by (simp add: schedQueued_def sched0_def env1_def podW_def podFoo_def)
  from D [of schedQueued] t3 e3
  have c: "deleteOne env1 podW schedQueued = (Some noSuchPodErr, sched0)"
    by simp
  have t4: "taskForPod schedFinished ''default/foo'' = Some ''task-foo''"
    by (simp add: taskForPod_def schedFinished_def sched1_def)
  have s4: "snd (getTask schedFinished ''task-foo'') = stateFinished"
    by (simp add: schedFinished_finished)
  have e4: "schedFinished\<lparr>podQueue := (podQueue schedFinished)(GetUID env1 podW := None)\<rparr> = schedFinished"
    by (simp add: schedFinished_def sched1_def env1_def podW_def podFoo_def)
  from D [of schedFinished] t4 s4 e4
  have d: "deleteOne env1 podW schedFinished = (Some noSuchTaskErr, schedFinished)"
    by simp
  from a b c d i1 i2 t1 t2 t3 t4 s4 l1 g1 g2 podW_key uid
  show ?thesis by simp
qed

lemma gc_getTask: "getTask (gc env now st) = getTask st"
  by (rule getTask_cong) (simp_all add: gc_def)

lemma gc_reads:
  "taskForPod (gc env now st) = taskForPod st" "heap (gc env now st) = heap st"
  "podQueue (gc env now st) = podQueue st" "listeners (gc env now st) = listeners st"
  "nextChan (gc env now st) = nextChan st"
  by (simp_all add: gc_def taskForPod_def fun_eq_iff)

lemma listenerPred_iff:
  "listenerPred env taskId s offer =
     (\<exists>a. getTask s taskId = (Some a, statePending) \<and> \<not> launched (heap s a) \<and>
          AcceptOffer env (heap s a) offer)"
  by (cases "getTask s taskId"; cases "fst (getTask s taskId)"; cases "snd (getTask s taskId)")
     (auto simp: listenerPred_def)

text \<open>
  C6. The error handler drops a \<open>noSuchPod\<close> error: nothing changes, nothing is requeued.
  For any other error, when the pod's key resolves to a task that is pending and not
  launched, the pod is handed to the delay queue (under its keep-existing policy) with the
  current backoff delay of its key. When the error is \<open>noSuitableOffers\<close> a listener is
  registered under the pod key and its break channel is the notify channel of the requeued
  pod; for every other error the listeners stay as they were and the requeued pod has no
  notify channel. The listener's predicate holds of an offer iff, when it is asked, the
  task is pending, not launched and accepts the offer.
\<close>

theorem handleSchedulingError_outcomes:
  "handleSchedulingError env now pod noSuchPodErr st = st \<and>
   (\<forall>podKey taskId a.
      schedulingErr \<noteq> noSuchPodErr \<and>
      makePodKey env (pod_Namespace pod) (pod_Name pod) = Inr podKey \<and>
      taskForPod st podKey = Some taskId \<and>
      getTask st taskId = (Some a, statePending) \<and> \<not> launched (heap st a) \<longrightarrow>
        podQueue (handleSchedulingError env now pod schedulingErr st) =
          podQueue
            (requeue env
               \<lparr>p_Pod = pod, p_deadline = None,
                p_delay = Some (fst (getBackoff env now podKey (gc env now st))),
                p_notify = (if schedulingErr = noSuitableOffersErr then Some (nextChan st)
                            else None)\<rparr>
               st) \<and>
        listeners (handleSchedulingError env now pod schedulingErr st) =
          (if schedulingErr = noSuitableOffersErr
           then (listeners st)(podKey \<mapsto> \<lparr>l_taskId = taskId, l_notify = nextChan st\<rparr>)
           else listeners st)) \<and>
   (\<forall>taskId s offer.
      listenerPred env taskId s offer =
        (\<exists>a. getTask s taskId = (Some a, statePending) \<and> \<not> launched (heap s a) \<and>
             AcceptOffer env (heap s a) offer)) \<and>
   (schedulingErr \<noteq> noSuitableOffersErr \<longrightarrow>
      listeners (handleSchedulingError env now pod schedulingErr st) = listeners st)"
proof (intro conjI allI impI)
  show "handleSchedulingError env now pod noSuchPodErr st = st"
    by (simp add: handleSchedulingError_def)
next
  fix podKey taskId a
  assume h: "schedulingErr \<noteq> noSuchPodErr \<and>
      makePodKey env (pod_Namespace pod) (pod_Name pod) = Inr podKey \<and>
      taskForPod st podKey = Some taskId \<and>
      getTask st taskId = (Some a, statePending) \<and> \<not> launched (heap st a)"
  let ?st1 = "gc env now st"
  let ?st2 = "if schedulingErr = noSuitableOffersErr then snd (Listen podKey taskId ?st1) else ?st1"
  let ?notify = "if schedulingErr = noSuitableOffersErr then Some (nextChan st) else None"
  have d: "fst (getBackoff env now podKey ?st2) = fst (getBackoff env now podKey ?st1)"
    by (simp add: getBackoff_def Listen_def Let_def)
  have out: "handleSchedulingError env now pod schedulingErr st =
      requeue env \<lparr>p_Pod = pod, p_deadline = None,
               p_delay = Some (fst (getBackoff env now podKey ?st2)), p_notify = ?notify\<rparr>
        (snd (getBackoff env now podKey ?st2))"
    using h
    by (simp add: handleSchedulingError_def Let_def gc_reads gc_getTask split_def)
       (simp add: Listen_def gc_reads)
  show "podQueue (handleSchedulingError env now pod schedulingErr st) =
          podQueue
            (requeue env
               \<lparr>p_Pod = pod, p_deadline = None,
                p_delay = Some (fst (getBackoff env now podKey (gc env now st))),
                p_notify = ?notify\<rparr>
               st)"
    unfolding out d by (simp add: requeue_def getBackoff_def Listen_def Let_def gc_reads)
  show "listeners (handleSchedulingError env now pod schedulingErr st) =
          (if schedulingErr = noSuitableOffersErr
           then (listeners st)(podKey \<mapsto> \<lparr>l_taskId = taskId, l_notify = nextChan st\<rparr>)
           else listeners st)"
    unfolding out by (simp add: requeue_def getBackoff_def Listen_def Let_def gc_reads)
next
  fix taskId s offer
  show "listenerPred env taskId s offer =
        (\<exists>a. getTask s taskId = (Some a, statePending) \<and> \<not> launched (heap s a) \<and>
             AcceptOffer env (heap s a) offer)"
    by (rule listenerPred_iff)
next
  assume "schedulingErr \<noteq> noSuitableOffersErr"
  then show "listeners (handleSchedulingError env now pod schedulingErr st) = listeners st"
    by (simp add: handleSchedulingError_def Let_def gc_reads split_def requeue_def getBackoff_def
          split: sum.split option.split prod.split stateType.split)
qed


theorem handleSchedulingError_outcomes_witness:
  "handleSchedulingError env1 100 podFoo noSuchPodErr sched1 = sched1 \<and>
   noSuitableOffersErr \<noteq> noSuchPodErr \<and> External ''refused'' \<noteq> noSuchPodErr \<and>
   External ''refused'' \<noteq> noSuitableOffersErr \<and>
   makePodKey env1 (pod_Namespace podFoo) (pod_Name podFoo) = Inr ''default/foo'' \<and>
   taskForPod sched1 ''default/foo'' = Some ''task-foo'' \<and>
   getTask sched1 ''task-foo'' = (Some 0, statePending) \<and> \<not> launched (heap sched1 0) \<and>
   podQueue (handleSchedulingError env1 100 podFoo noSuitableOffersErr sched1) ''default/foo'' =
     Some \<lparr>p_Pod = podFoo, p_deadline = None, p_delay = Some 1, p_notify = Some 0\<rparr> \<and>
   listeners (handleSchedulingError env1 100 podFoo noSuitableOffersErr sched1) ''default/foo'' =
     Some \<lparr>l_taskId = ''task-foo'', l_notify = 0\<rparr> \<and>
   listenerPred env1 ''task-foo'' sched1 offer1 \<and>
   \<not> listenerPred env1 ''task-foo'' schedLaunched offer1 \<and>
   podQueue (handleSchedulingError env1 100 podFoo (External ''refused'') sched1) ''default/foo'' =
     Some \<lparr>p_Pod = podFoo, p_deadline = None, p_delay = Some 1, p_notify = None\<rparr> \<and>
   listeners (handleSchedulingError env1 100 podFoo (External ''refused'') sched1) = Map.empty"
proof -
  have t1: "taskForPod sched1 ''default/foo'' = Some ''task-foo''"
    by (simp add: taskForPod_def sched1_def)
  have l1: "\<not> launched (heap sched1 0)"
    by (simp add: sched1_def FillTaskInfo_def taskFoo_def)
  have l2: "launched (heap schedLaunched 0)"
    by (simp add: schedLaunched_def updTask_def)
  have acc: "AcceptOffer env1 (heap sched1 0) offer1"
    by (simp add: env1_def)
  have b: "fst (getBackoff env1 100 ''default/foo'' (gc env1 100 sched1)) = 1 \<and>
           nextChan sched1 = 0 \<and> podQueue sched1 = Map.empty \<and> listeners sched1 = Map.empty"
    by (simp add: getBackoff_def gc_def sched1_def)
  have u: "GetUID env1 \<lparr>p_Pod = podFoo, p_deadline = None, p_delay = d, p_notify = n\<rparr> =
           ''default/foo''"
    for d n by (simp add: env1_def podFoo_def)
  note H = handleSchedulingError_outcomes [of env1 100 podFoo sched1]
  from H [of noSuitableOffersErr]
  have c0: "handleSchedulingError env1 100 podFoo noSuchPodErr sched1 = sched1"
    by blast
  from H [of noSuitableOffersErr] sched1_key t1 sched1_pending l1
  have c1: "podQueue (handleSchedulingError env1 100 podFoo noSuitableOffersErr sched1) =
          podQueue
            (requeue env1
               \<lparr>p_Pod = podFoo, p_deadline = None,
                p_delay = Some (fst (getBackoff env1 100 ''default/foo'' (gc env1 100 sched1))),
                p_notify = Some (nextChan sched1)\<rparr>
               sched1) \<and>
        listeners (handleSchedulingError env1 100 podFoo noSuitableOffersErr sched1) =
          (listeners sched1)(''default/foo'' \<mapsto> \<lparr>l_taskId = ''task-foo'', l_notify = nextChan sched1\<rparr>)"
    by simp
  from H [of "External ''refused''"] sched1_key t1 sched1_pending l1
  have c2: "podQueue (handleSchedulingError env1 100 podFoo (External ''refused'') sched1) =
          podQueue
            (requeue env1
               \<lparr>p_Pod = podFoo, p_deadline = None,
                p_delay = Some (fst (getBackoff env1 100 ''default/foo'' (gc env1 100 sched1))),
                p_notify = None\<rparr>
               sched1) \<and>
        listeners (handleSchedulingError env1 100 podFoo (External ''refused'') sched1) =
          listeners sched1"
    by simp
  from H [of noSuitableOffersErr] sched1_pending l1 acc
  have p1: "listenerPred env1 ''task-foo'' sched1 offer1"
    by blast
  from H [of noSuitableOffersErr] schedLaunched_pending l2
  have p2: "\<not> listenerPred env1 ''task-foo'' schedLaunched offer1"
    by auto
  from c0 c1 c2 p1 p2 b t1 l1 sched1_key sched1_pending
  show ?thesis by (simp add: requeue_def Add_KeepExisting_def u)
qed

end
